theory Spec2Isabelle
  imports Complex_Main "HOL-Library.Sublist"
begin

section \<open>KeyIntentNER-T: the keyword pipeline of app.py\<close>

text \<open>
  A shallow embedding of the keyword pipeline of \<^verbatim>\<open>src/app.py\<close>: the intent classifier
  \<^verbatim>\<open>sort_by_keyword_feature\<close>, the entity adapter \<^verbatim>\<open>extract_entities\<close>, the topic
  matcher \<^verbatim>\<open>perform_topic_modeling_from_similarities\<close>, the batch loop
  \<^verbatim>\<open>batch_process_keywords\<close> and the entry point \<^verbatim>\<open>handle_keyword_processing\<close>.

  A Python \<^verbatim>\<open>str\<close> is modelled as a \<^typ>\<open>string\<close> whose characters are the code points
  below 256. A numpy float is modelled as the \<^typ>\<open>real\<close> number it denotes, so that
  comparing two floats is comparing two reals; an arithmetic operation on floats rounds
  its result, and is therefore not the operation on reals. The machine-learned models
  and the numeric libraries are not part of the program: they are fields of an
  environment record, and an exception they raise is the \<open>Inl\<close> branch of a sum.
\<close>

subsection \<open>Python strings\<close>

text \<open>\<^verbatim>\<open>kw in f\<close> on two strings: \<open>kw\<close> occurs in \<open>f\<close> as a contiguous run.\<close>

fun str_in :: "string \<Rightarrow> string \<Rightarrow> bool" where
  "str_in kw [] = (kw = [])"
| "str_in kw (c # cs) = (prefix kw (c # cs) \<or> str_in kw cs)"

text \<open>\<^verbatim>\<open>str.lower()\<close> on the code points below 256: \<open>A\<close>..\<open>Z\<close> and the upper-case
  letters \<open>0xC0\<close>..\<open>0xDE\<close> (without the multiplication sign \<open>0xD7\<close>) move up by 32.\<close>

definition lower_char :: "char \<Rightarrow> char" where
  "lower_char c =
     (let n = (of_char c :: nat)
      in if (65 \<le> n \<and> n \<le> 90) \<or> (192 \<le> n \<and> n \<le> 222 \<and> n \<noteq> 215)
         then char_of (n + 32) else c)"

definition lower :: "string \<Rightarrow> string" where
  "lower s = map lower_char s"

text \<open>\<^verbatim>\<open>str.isspace()\<close> on one code point below 256, and \<^verbatim>\<open>str.strip()\<close>.\<close>

definition isspace :: "char \<Rightarrow> bool" where
  "isspace c =
     (let n = (of_char c :: nat)
      in (9 \<le> n \<and> n \<le> 13) \<or> (28 \<le> n \<and> n \<le> 32) \<or> n = 133 \<or> n = 160)"

definition strip :: "string \<Rightarrow> string" where
  "strip s = rev (dropWhile isspace (rev (dropWhile isspace s)))"

text \<open>\<^verbatim>\<open>s.split('\n')\<close>: the pieces between line feeds; never the empty list.\<close>

fun split_nl :: "string \<Rightarrow> string list" where
  "split_nl [] = [[]]"
| "split_nl (c # cs) =
     (if c = CHR 0x0A then [] # split_nl cs
      else (case split_nl cs of [] \<Rightarrow> [[c]] | l # ls \<Rightarrow> (c # l) # ls))"

text \<open>\<^verbatim>\<open>sep.join(xs)\<close>.\<close>

fun join :: "string \<Rightarrow> string list \<Rightarrow> string" where
  "join sep [] = []"
| "join sep [x] = x"
| "join sep (x # y # ys) = x @ sep @ join sep (y # ys)"

subsection \<open>Intent classifier\<close>

text \<open>The argument of \<^verbatim>\<open>sort_by_keyword_feature\<close> is any Python object; only its
  being a \<^verbatim>\<open>str\<close> or not matters to the code.\<close>

datatype py_value = Str string | NoneVal | IntVal int | BoolVal bool | ListVal "py_value list"

definition informational_keywords :: "string list" where
  "informational_keywords = [
    ''advice'', ''help'', ''how do i'', ''how does'', ''how to'', ''ideas'', ''information'', ''tools'', ''list'',
    ''resources'', ''tips'', ''tutorial'', ''diy'', ''ways to'', ''what does'', ''what is'', ''what was'', ''where are'', ''where does'',
    ''where can'', ''where is'', ''where was'', ''when is'', ''when are'', ''when was'', ''where to'', ''who is'', ''who said'', ''who wrote'',
    ''who are'', ''why are'', ''who was'', ''why is'', ''examples'', ''explained'', ''meaning of'', ''definition'', ''benefits of'', ''uses of'',
    ''overview'', ''summary'', ''report'', ''study'', ''analysis'', ''research'', ''insight'', ''data'', ''facts'', ''details'', ''background'',
    ''context'', ''news'', ''history'', ''documentation'', ''article'', ''paper'', ''blog'', ''forum'', ''discussion'', ''commentary'',
    ''opinion'', ''perspective'', ''viewpoint'', ''guide'', ''difference between'', ''types of'']"

definition navigational_keywords :: "string list" where
  "navigational_keywords = [
    ''facebook'', ''meta'', ''twitter'', ''site'', ''login'', ''account'', ''official website'', ''homepage'', ''portal'',
    ''signin'', ''register'', ''signup'', ''dashboard'', ''profile'', ''settings'', ''control panel'', ''main page'',
    ''user area'', ''admin'', ''control'', ''access'', ''entry'', ''webpage'', ''navigate'', ''home'', ''site map'',
    ''directory'', ''find'', ''search'', ''lookup'', ''index'', ''online'', ''internet'', ''web'', ''browser'', ''navigate to'',
    ''goto'', ''landing page'', ''url'', ''hyperlink'', ''link'', ''web address'', ''navigate'',
    ''web navigation'', ''website address'', ''app'', ''download'', ''status'', ''join'']"

definition local_keywords :: "string list" where
  "local_keywords = [
    ''closest'', ''close'', ''near me'', ''my area'', ''residential'', ''my zip'', ''my city'', ''nearby'', ''in town'',
    ''around here'', ''local'', ''near'', ''vicinity'', ''local area'', ''nearest'', ''surrounding'', ''within miles'',
    ''in my neighborhood'', ''district'', ''zone'', ''region'', ''near my location'', ''local services'', ''community'',
    ''local shop'', ''in my vicinity'', ''local store'', ''suburb'', ''urban area'', ''within walking distance'',
    ''around my place'', ''within my reach'', ''close by'', ''local office'', ''local branch'', ''near me now'',
    ''in my locale'', ''within the city'', ''local market'', ''in my town'', ''local spot'', ''local point'',
    ''local guide'', ''near my house'', ''local venue'', ''close to me'', ''within blocks'', ''local attractions'',
    ''local events'', ''address'']"

definition commercial_keywords :: "string list" where
  "commercial_keywords = [
    ''best'', ''affordable'', ''budget'', ''cheap'', ''expensive'', ''review'', ''top'', ''service'', ''cost'', ''average cost'',
    ''calculator'', ''provider'', ''company'', ''vs'', ''companies'', ''professional'', ''specialist'', ''compare'',
    ''comparison'', ''rating'', ''testimonials'', ''recommendation'', ''advisor'', ''consultant'', ''expert'', ''ranking'',
    ''leader'', ''top-rated'', ''best-selling'', ''trending'', ''featured'', ''highlighted'', ''recommended'', ''popular'',
    ''favorite'', ''preferred'', ''choice'', ''most reviewed'', ''highest rated'', ''highly recommended'', ''award-winning'',
    ''five-star'', ''customer favorite'', ''top pick'', ''critically acclaimed'', ''editor'' @ [CHR 0x27] @ ''s choice'', ''people'' @ [CHR 0x27] @ ''s choice'',
    ''top performer'', ''best value'', ''best overall'', ''best quality'', ''best price'', ''most trusted'', ''leading brand'',
    ''popular choice'', ''most popular'', ''fees'', ''pros and cons'']"

definition transactional_keywords :: "string list" where
  "transactional_keywords = [
    ''price'', ''quotes'', ''pricing'', ''purchase'', ''rates'', ''how much'', ''same day'', ''same-day'', ''buy'', ''order'',
    ''discount'', ''deal'', ''offers'', ''sale'', ''checkout'', ''book'', ''reservation'', ''reserve'', ''bargain'', ''coupon'',
    ''promo'', ''rebate'', ''clearance'', ''markdown'', ''buy one get one'', ''bogo'', ''special'', ''exclusive'', ''bundle'',
    ''package'', ''subscription'', ''membership'', ''payment'', ''installment'', ''financing'', ''contract'', ''billing'',
    ''invoice'', ''ticket'', ''admission'', ''entry'', ''enrollment'', ''register'', ''sign up'', ''pre-order'', ''e-commerce'',
    ''shopping cart'']"

text \<open>\<^verbatim>\<open>any(keyword in f for keyword in keywords)\<close>.\<close>

definition any_in :: "string list \<Rightarrow> string \<Rightarrow> bool" where
  "any_in keywords f = list_ex (\<lambda>keyword. str_in keyword f) keywords"

fun sort_by_keyword_feature :: "py_value \<Rightarrow> string" where
  "sort_by_keyword_feature (Str s) =
     (let f = lower s
      in if any_in informational_keywords f then ''informational''
         else if any_in navigational_keywords f then ''navigational''
         else if any_in local_keywords f then ''local''
         else if any_in commercial_keywords f then ''commercial investigation''
         else if any_in transactional_keywords f then ''transactional''
         else ''other'')"
| "sort_by_keyword_feature v = ''other''"

subsection \<open>Exceptions and the external collaborators\<close>

datatype error = IndexError | ValueError | ModelError

text \<open>
  What the program calls but does not define:
  \<^item> \<open>load_sentence_model\<close>: \<^verbatim>\<open>SentenceTransformer('all-MiniLM-L6-v2')\<close> in
    \<^verbatim>\<open>get_sentence_model\<close>; \<open>Some e\<close> when the constructor raises \<open>e\<close>;
  \<^item> \<open>encode\<close>: \<^verbatim>\<open>sentence_model.encode(texts, batch_size=n)\<close>, a 2-D array given as
    the list of its rows, or the exception raised;
  \<^item> \<open>nlp\<close>: \<^verbatim>\<open>get_nlp()(text)\<close> followed by reading \<^verbatim>\<open>(ent.text, ent.label_)\<close> off
    \<^verbatim>\<open>doc.ents\<close>, or the exception raised by loading or running the extractor;
  \<^item> \<open>categories_file\<close>: the lines of \<^verbatim>\<open>google_categories.txt\<close>, \<open>None\<close> when opening
    or reading it raises;
  \<^item> \<open>cos_sim\<close>: the cosine of the angle of two vectors, as a number;
  \<^item> \<open>argsort\<close>: \<^verbatim>\<open>numpy.ndarray.argsort()\<close>, the indices of an array in ascending
    order of their values; numpy leaves the order of equal values open;
  \<^item> \<open>times_1_1\<close>: the floating-point product \<^verbatim>\<open>x * 1.1\<close>, in which the literal and
    the result are rounded to the float type at hand.
\<close>

record env =
  load_sentence_model :: "error option"
  encode :: "string list \<Rightarrow> nat \<Rightarrow> error + real list list"
  nlp :: "string \<Rightarrow> error + (string \<times> string) list"
  categories_file :: "string list option"
  cos_sim :: "real list \<Rightarrow> real list \<Rightarrow> real"
  argsort :: "real list \<Rightarrow> nat list"
  times_1_1 :: "real \<Rightarrow> real"

definition load_google_categories :: "env \<Rightarrow> string list" where
  "load_google_categories E =
     (case categories_file E of None \<Rightarrow> [] | Some ls \<Rightarrow> map strip ls)"

subsection \<open>Entity extractor adapter\<close>

text \<open>An element of the list \<^verbatim>\<open>extract_entities\<close> returns is a \<^verbatim>\<open>(text, label)\<close> tuple
  or a plain message string.\<close>

datatype entity = Tuple string string | Message string

definition extract_entities :: "env \<Rightarrow> string \<Rightarrow> entity list" where
  "extract_entities E text =
     (case nlp E text of
        Inl e \<Rightarrow> [Message ''Error extracting entities'']
      | Inr ents \<Rightarrow>
          (let entities = map (\<lambda>(t, l). Tuple t l) ents
           in if entities \<noteq> [] then entities else [Message ''No specific entities found'']))"

subsection \<open>Topic matcher\<close>

definition compute_category_embeddings :: "env \<Rightarrow> real list list" where
  "compute_category_embeddings E =
     (let categories = load_google_categories E
      in case load_sentence_model E of
           Some e \<Rightarrow> []
         | None \<Rightarrow> (case encode E categories 32 of Inl e \<Rightarrow> [] | Inr Y \<Rightarrow> Y))"

text \<open>\<^verbatim>\<open>xs[i]\<close> for an index that is not negative.\<close>

definition getitem :: "'a list \<Rightarrow> nat \<Rightarrow> error + 'a" where
  "getitem xs i = (if i < length xs then Inr (xs ! i) else Inl IndexError)"

text \<open>\<^verbatim>\<open>similarities.argsort()[-3:][::-1]\<close>: the last three indices, last first.\<close>

definition top_indices :: "env \<Rightarrow> real list \<Rightarrow> nat list" where
  "top_indices E similarities =
     rev (drop (length (argsort E similarities) - 3) (argsort E similarities))"

definition perform_topic_modeling_from_similarities :: "env \<Rightarrow> real list \<Rightarrow> string" where
  "perform_topic_modeling_from_similarities E similarities =
     (let categories = load_google_categories E;
          top = top_indices E similarities
      in case getitem top 0 of Inl e \<Rightarrow> ''Error in topic modeling'' | Inr i0 \<Rightarrow>
         (case getitem categories i0 of Inl e \<Rightarrow> ''Error in topic modeling'' | Inr best_match \<Rightarrow>
         (case getitem top 1 of Inl e \<Rightarrow> ''Error in topic modeling'' | Inr i1 \<Rightarrow>
         (case getitem categories i1 of Inl e \<Rightarrow> ''Error in topic modeling'' | Inr second_best \<Rightarrow>
            if similarities ! i0 > times_1_1 E (similarities ! i1) then best_match
            else best_match @ '' , '' @ second_best))))"

subsection \<open>Batch orchestrator\<close>

text \<open>\<^verbatim>\<open>sklearn.metrics.pairwise.cosine_similarity(X, Y)\<close>: both arguments are validated
  first (a 2-D array with at least one row and one column, the same number of columns
  in both), a \<^verbatim>\<open>ValueError\<close> otherwise; then one row of cosines per row of \<open>X\<close>.\<close>

definition cosine_similarity :: "env \<Rightarrow> real list list \<Rightarrow> real list list \<Rightarrow> error + real list list" where
  "cosine_similarity E X Y =
     (if X = [] \<or> Y = [] then Inl ValueError
      else let d = length (hd X)
           in if d = 0 \<or> \<not> list_all (\<lambda>x. length x = d) X \<or> \<not> list_all (\<lambda>y. length y = d) Y
              then Inl ValueError
              else Inr (map (\<lambda>x. map (cos_sim E x) Y) X))"

record processed_data =
  Keywords :: "string list"
  Intent :: "string list"
  NER_Entities :: "string list"
  Google_Content_Topics :: "string list"

definition entity_string :: "entity \<Rightarrow> string" where
  "entity_string entity =
     (case entity of Tuple t l \<Rightarrow> t @ '' ('' @ l @ '')'' | Message m \<Rightarrow> m)"

definition processed_entity :: "entity list \<Rightarrow> string" where
  "processed_entity entity_list = join '', '' (map entity_string entity_list)"

text \<open>The body of the \<^verbatim>\<open>for i in range(0, len(keywords), batch_size)\<close> loop, from index
  \<open>i\<close> on. The second component is the exception that left the loop, if any; it reaches
  the handler of \<^verbatim>\<open>batch_process_keywords\<close>, which logs it.\<close>

function batch_loop ::
  "env \<Rightarrow> real list list \<Rightarrow> nat \<Rightarrow> string list \<Rightarrow> nat \<Rightarrow> processed_data
     \<Rightarrow> processed_data \<times> error option" where
  "batch_loop E category_embeddings batch_size keywords i pd =
     (if batch_size = 0 \<or> length keywords \<le> i then (pd, None)
      else
        let batch = take batch_size (drop i keywords)
        in case encode E batch batch_size of
             Inl e \<Rightarrow> (pd, Some e)
           | Inr batch_embeddings \<Rightarrow>
               (let intents = map (\<lambda>kw. sort_by_keyword_feature (Str kw)) batch;
                    entities = map (extract_entities E) batch
                in case cosine_similarity E batch_embeddings category_embeddings of
                     Inl e \<Rightarrow> (pd, Some e)
                   | Inr similarities \<Rightarrow>
                       (let topics = map (perform_topic_modeling_from_similarities E) similarities;
                            pd1 = pd\<lparr>Keywords := Keywords pd @ batch\<rparr>;
                            pd2 = pd1\<lparr>Intent := Intent pd1 @ intents\<rparr>;
                            processed_entities = map processed_entity entities;
                            pd3 = pd2\<lparr>NER_Entities := NER_Entities pd2 @ processed_entities\<rparr>;
                            pd4 = pd3\<lparr>Google_Content_Topics := Google_Content_Topics pd3 @ topics\<rparr>
                        in batch_loop E category_embeddings batch_size keywords (i + batch_size) pd4)))"
  by pat_completeness auto
termination
  by (relation "measure (\<lambda>(E, ce, bs, ks, i, pd). length ks - i)") auto

definition empty_data :: processed_data where
  "empty_data = \<lparr>Keywords = [], Intent = [], NER_Entities = [], Google_Content_Topics = []\<rparr>"

text \<open>\<^verbatim>\<open>batch_process_keywords\<close> with what its handler logs: \<^verbatim>\<open>range\<close> raises on a zero
  step and is empty on a negative one.\<close>

definition batch_process_keywords_logged ::
  "env \<Rightarrow> string list \<Rightarrow> int \<Rightarrow> processed_data \<times> error option" where
  "batch_process_keywords_logged E keywords batch_size =
     (let processed = empty_data
      in case load_sentence_model E of
           Some e \<Rightarrow> (processed, Some e)
         | None \<Rightarrow>
             (let category_embeddings = compute_category_embeddings E
              in if batch_size = 0 then (processed, Some ValueError)
                 else if batch_size < 0 then (processed, None)
                 else batch_loop E category_embeddings (nat batch_size) keywords 0 processed))"

definition batch_process_keywords :: "env \<Rightarrow> string list \<Rightarrow> int \<Rightarrow> processed_data" where
  "batch_process_keywords E keywords batch_size =
     fst (batch_process_keywords_logged E keywords batch_size)"

subsection \<open>Pipeline entry point\<close>

type_synonym callback_result =
  "bool \<times> bool \<times> bool \<times> string \<times> string \<times> processed_data option \<times> string \<times> bool \<times> string"

definition normalize_keywords :: "string \<Rightarrow> string list" where
  "normalize_keywords keyword_input =
     map strip (filter (\<lambda>kw. strip kw \<noteq> []) (take 100 (split_nl keyword_input)))"

definition handle_keyword_processing :: "env \<Rightarrow> int option \<Rightarrow> string \<Rightarrow> callback_result" where
  "handle_keyword_processing E n_clicks keyword_input =
     (if n_clicks = None \<or> keyword_input = []
      then (True, False, False, [], ''success'', None, [], False, [])
      else
        let keywords = normalize_keywords keyword_input;
            processed = batch_process_keywords E keywords 8
        in (True, False, False, [], ''success'', Some processed, [], True,
            ''Keyword processing complete!''))"

subsection \<open>Specification vocabulary and reference inputs\<close>

text \<open>The closed enumeration of intent labels, and the string the classifier returns
  for each.\<close>

datatype intent_label =
  Informational | Navigational | Local | Commercial_Investigation | Transactional | Other

definition label_string :: "intent_label \<Rightarrow> string" where
  "label_string l =
     (case l of
        Informational \<Rightarrow> ''informational''
      | Navigational \<Rightarrow> ''navigational''
      | Local \<Rightarrow> ''local''
      | Commercial_Investigation \<Rightarrow> ''commercial investigation''
      | Transactional \<Rightarrow> ''transactional''
      | Other \<Rightarrow> ''other'')"

text \<open>The three per-keyword fields, named: the loop body computes exactly these.\<close>

definition intent_of :: "string \<Rightarrow> string" where
  "intent_of kw = sort_by_keyword_feature (Str kw)"

definition entities_of :: "env \<Rightarrow> string \<Rightarrow> string" where
  "entities_of E kw = processed_entity (extract_entities E kw)"

definition topic_of :: "env \<Rightarrow> (string \<Rightarrow> real list) \<Rightarrow> real list list \<Rightarrow> string \<Rightarrow> string" where
  "topic_of E emb ce kw =
     perform_topic_modeling_from_similarities E (map (cos_sim E (emb kw)) ce)"

text \<open>What the program expects of the embedder: one row per text
  (\<open>encode_shape\<close>), and, where a claim speaks of a deterministic per-text
  embedder, rows that depend on the text alone and have one fixed dimension.\<close>

definition encode_shape :: "env \<Rightarrow> bool" where
  "encode_shape E = (\<forall>ts n X. encode E ts n = Inr X \<longrightarrow> length X = length ts)"

definition per_text_embedder :: "env \<Rightarrow> (string \<Rightarrow> real list) \<Rightarrow> nat \<Rightarrow> bool" where
  "per_text_embedder E emb d =
     ((\<forall>ts n. encode E ts n = Inr (map emb ts)) \<and> (\<forall>t. length (emb t) = d))"

text \<open>What the program expects of the numeric library: \<open>argsort\<close> returns the
  indices of its argument, each once, in ascending order of their values, in whatever
  order it leaves equal values; and the floating-point product by 1.1 differs from the
  exact product by a relative error of at most \<open>eps\<close>.\<close>

definition argsort_sorts :: "env \<Rightarrow> bool" where
  "argsort_sorts E =
     (\<forall>xs. length (argsort E xs) = length xs
          \<and> set (argsort E xs) = {0..<length xs}
          \<and> sorted (map (\<lambda>i. xs ! i) (argsort E xs)))"


text \<open>\<open>res\<close> is \<open>pd\<close> with one row appended for each keyword of \<open>ks\<close>, in order.\<close>

definition extends_by :: "env \<Rightarrow> processed_data \<Rightarrow> string list \<Rightarrow> processed_data \<Rightarrow> bool" where
  "extends_by E pd ks res =
     (Keywords res = Keywords pd @ ks
      \<and> Intent res = Intent pd @ map intent_of ks
      \<and> NER_Entities res = NER_Entities pd @ map (entities_of E) ks
      \<and> (encode_shape E \<longrightarrow>
           length (Google_Content_Topics res) = length (Google_Content_Topics pd) + length ks))"

definition rows :: "env \<Rightarrow> (string \<Rightarrow> real list) \<Rightarrow> real list list \<Rightarrow> processed_data \<Rightarrow> string list \<Rightarrow> processed_data" where
  "rows E emb ce pd ks =
     pd\<lparr>Keywords := Keywords pd @ ks,
        Intent := Intent pd @ map intent_of ks,
        NER_Entities := NER_Entities pd @ map (entities_of E) ks,
        Google_Content_Topics := Google_Content_Topics pd @ map (topic_of E emb ce) ks\<rparr>"

text \<open>A result without its entity column, to compare runs that differ in the
  extractor only.\<close>

definition without_entities :: "processed_data \<Rightarrow> processed_data" where
  "without_entities pd = pd\<lparr>NER_Entities := []\<rparr>"

text \<open>The non-empty trimmed lines of the whole input, with no limit on the lines read.\<close>

definition nonempty_lines :: "string \<Rightarrow> string list" where
  "nonempty_lines keyword_input =
     map strip (filter (\<lambda>line. strip line \<noteq> []) (split_nl keyword_input))"



text \<open>A small environment in which every collaborator answers: embeddings that are
  unit vectors of the plane, chosen by the length of the text, with the scalar product
  as their cosine; an extractor that finds one entity in texts naming Paris and raises
  on the text \<open>crash\<close>; a taxonomy of three categories; an argsort that keeps equal
  values in index order; a product by 1.1 without rounding. Its variants: the embedder
  cannot be loaded; the taxonomy file cannot be read; the taxonomy has one category;
  the embedder raises on a batch holding the text \<open>boom\<close>.\<close>

definition demo_embed :: "string \<Rightarrow> real list" where
  "demo_embed t =
     (if length t mod 4 = 0 then [0, 1]
      else if length t mod 4 = 1 then [1, 0]
      else if length t mod 4 = 2 then [3 / 5, 4 / 5]
      else [5 / 13, 12 / 13])"

definition demo_nlp :: "string \<Rightarrow> error + (string \<times> string) list" where
  "demo_nlp t =
     (if t = ''crash'' then Inl ModelError
      else if str_in ''paris'' t then Inr [(''paris'', ''location'')]
      else Inr [])"

definition stable_argsort :: "real list \<Rightarrow> nat list" where
  "stable_argsort xs = sort_key (\<lambda>i. xs ! i) [0..<length xs]"

definition demo_env :: env where
  "demo_env = \<lparr>load_sentence_model = None,
     encode = (\<lambda>ts n. Inr (map demo_embed ts)),
     nlp = demo_nlp,
     categories_file = Some [''Arts'', ''Travel'', ''Finance''],
     cos_sim = (\<lambda>x y. sum_list (map2 (*) x y)),
     argsort = stable_argsort,
     times_1_1 = (\<lambda>x. x * 1.1)\<rparr>"


definition env_no_taxonomy :: env where
  "env_no_taxonomy = demo_env\<lparr>categories_file := None\<rparr>"


definition env_encode_fails :: env where
  "env_encode_fails = demo_env\<lparr>encode :=
     (\<lambda>ts n. if ''boom'' \<in> set ts then Inl ModelError else Inr (map demo_embed ts))\<rparr>"

text \<open>The product by 1.1 in IEEE binary64 arithmetic, for results below the overflow
  threshold: the literal is the double nearest to 1.1, and the exact product is rounded
  to the nearest double, to the even one of two nearest; and the reference environment
  with this product.\<close>

definition binary64_1_1 :: real where
  "binary64_1_1 = 2476979795053773 / 2 ^ 51"

definition round_binary64 :: "real \<Rightarrow> real" where
  "round_binary64 x =
     (if x = 0 then 0
      else
        let e = max \<lfloor>log 2 \<bar>x\<bar>\<rfloor> (- 1022);
            u = 2 powr (real_of_int e - 52);
            q = x / u;
            f = \<lfloor>q\<rfloor>;
            n = (if q - of_int f < 1 / 2 then f
                 else if q - of_int f > 1 / 2 then f + 1
                 else if even f then f else f + 1)
        in of_int n * u)"

definition env_binary64 :: env where
  "env_binary64 = demo_env\<lparr>times_1_1 := (\<lambda>x. round_binary64 (x * binary64_1_1))\<rparr>"

section \<open>Properties\<close>

subsection \<open>Intent classifier\<close>

lemma str_in_sublist: "str_in kw f = sublist kw f"
  by (induction f) (auto simp: sublist_Cons_right)

lemma any_in_iff: "any_in keywords f = (\<exists>kw\<in>set keywords. sublist kw f)"
  by (simp add: any_in_def list_ex_iff str_in_sublist)

text \<open>
  C3. The five trigger lists are tried in the order informational, navigational, local,
  commercial investigation, transactional, each as a substring test on the lower-cased
  keyword, and the first list with a phrase occurring in it gives the label. The keyword
  \<open>best local plumber near me\<close> holds a phrase of the local list and one of the
  commercial list, and is classified as local.
\<close>

theorem intent_priority_order:
  "sort_by_keyword_feature (Str s) =
     (if \<exists>kw\<in>set informational_keywords. sublist kw (lower s) then ''informational''
      else if \<exists>kw\<in>set navigational_keywords. sublist kw (lower s) then ''navigational''
      else if \<exists>kw\<in>set local_keywords. sublist kw (lower s) then ''local''
      else if \<exists>kw\<in>set commercial_keywords. sublist kw (lower s) then ''commercial investigation''
      else if \<exists>kw\<in>set transactional_keywords. sublist kw (lower s) then ''transactional''
      else ''other'')
   \<and> sublist ''local'' (lower ''best local plumber near me'') \<and> ''local'' \<in> set local_keywords
   \<and> sublist ''best'' (lower ''best local plumber near me'') \<and> ''best'' \<in> set commercial_keywords
   \<and> sort_by_keyword_feature (Str ''best local plumber near me'') = ''local''"
proof (intro conjI)
  show "sort_by_keyword_feature (Str s) =
     (if \<exists>kw\<in>set informational_keywords. sublist kw (lower s) then ''informational''
      else if \<exists>kw\<in>set navigational_keywords. sublist kw (lower s) then ''navigational''
      else if \<exists>kw\<in>set local_keywords. sublist kw (lower s) then ''local''
      else if \<exists>kw\<in>set commercial_keywords. sublist kw (lower s) then ''commercial investigation''
      else if \<exists>kw\<in>set transactional_keywords. sublist kw (lower s) then ''transactional''
      else ''other'')"
    by (simp only: sort_by_keyword_feature.simps Let_def any_in_iff)
  show "sublist ''local'' (lower ''best local plumber near me'')"
    unfolding str_in_sublist [symmetric] by code_simp
  show "''local'' \<in> set local_keywords" by (simp add: local_keywords_def)
  show "sublist ''best'' (lower ''best local plumber near me'')"
    unfolding str_in_sublist [symmetric] by code_simp
  show "''best'' \<in> set commercial_keywords" by (simp add: commercial_keywords_def)
  show "sort_by_keyword_feature (Str ''best local plumber near me'') = ''local''"
    by code_simp
qed

theorem intent_priority_order_witness:
  "(\<exists>kw\<in>set local_keywords. sublist kw (lower ''Plumber NEAR me''))
   \<and> \<not> (\<exists>kw\<in>set informational_keywords. sublist kw (lower ''Plumber NEAR me''))
   \<and> \<not> (\<exists>kw\<in>set navigational_keywords. sublist kw (lower ''Plumber NEAR me''))
   \<and> sort_by_keyword_feature (Str ''Plumber NEAR me'') = ''local''"
proof -
  have a: "any_in local_keywords (lower ''Plumber NEAR me'')" by code_simp
  have b: "\<not> any_in informational_keywords (lower ''Plumber NEAR me'')" by code_simp
  have c: "\<not> any_in navigational_keywords (lower ''Plumber NEAR me'')" by code_simp
  from a b c intent_priority_order [of "''Plumber NEAR me''"] show ?thesis
    by (simp only: any_in_iff if_True if_False simp_thms)
qed

text \<open>
  C4. The classifier returns the string of one of the six labels for every argument; an
  argument that is not a string, and a string in which no trigger phrase occurs, both
  give \<open>other\<close>. The source has no raising statement on any path, so the model has
  no error result.
\<close>

theorem intent_total_closed:
  "(\<exists>l. sort_by_keyword_feature v = label_string l)
   \<and> ((\<forall>s. v \<noteq> Str s) \<longrightarrow> sort_by_keyword_feature v = label_string Other)
   \<and> (\<forall>s. v = Str s
          \<and> \<not> any_in informational_keywords (lower s) \<and> \<not> any_in navigational_keywords (lower s)
          \<and> \<not> any_in local_keywords (lower s) \<and> \<not> any_in commercial_keywords (lower s)
          \<and> \<not> any_in transactional_keywords (lower s)
        \<longrightarrow> sort_by_keyword_feature v = label_string Other)"
proof (intro conjI)
  have str: "\<exists>l. sort_by_keyword_feature (Str s) = label_string l" for s
  proof -
    have "sort_by_keyword_feature (Str s) = label_string Informational
        \<or> sort_by_keyword_feature (Str s) = label_string Navigational
        \<or> sort_by_keyword_feature (Str s) = label_string Local
        \<or> sort_by_keyword_feature (Str s) = label_string Commercial_Investigation
        \<or> sort_by_keyword_feature (Str s) = label_string Transactional
        \<or> sort_by_keyword_feature (Str s) = label_string Other"
      by (simp add: label_string_def Let_def)
    then show ?thesis by blast
  qed
  have other: "sort_by_keyword_feature v = label_string Other" if "\<forall>s. v \<noteq> Str s"
    using that by (cases v) (simp_all add: label_string_def)
  show "\<exists>l. sort_by_keyword_feature v = label_string l"
  proof (cases "\<exists>s. v = Str s")
    case True
    then show ?thesis using str by blast
  next
    case False
    then show ?thesis using other by blast
  qed
  show "(\<forall>s. v \<noteq> Str s) \<longrightarrow> sort_by_keyword_feature v = label_string Other"
    using other by blast
  show "\<forall>s. v = Str s
          \<and> \<not> any_in informational_keywords (lower s) \<and> \<not> any_in navigational_keywords (lower s)
          \<and> \<not> any_in local_keywords (lower s) \<and> \<not> any_in commercial_keywords (lower s)
          \<and> \<not> any_in transactional_keywords (lower s)
        \<longrightarrow> sort_by_keyword_feature v = label_string Other"
    by (simp add: label_string_def Let_def)
qed

theorem intent_total_closed_witness:
  "sort_by_keyword_feature NoneVal = ''other'' \<and> sort_by_keyword_feature (IntVal 7) = ''other''
   \<and> sort_by_keyword_feature (Str ''zzz'') = ''other''
   \<and> (\<exists>l. sort_by_keyword_feature (Str ''Buy Shoes'') = label_string l)"
proof -
  have n: "\<not> any_in informational_keywords (lower ''zzz'')" "\<not> any_in navigational_keywords (lower ''zzz'')"
    "\<not> any_in local_keywords (lower ''zzz'')" "\<not> any_in commercial_keywords (lower ''zzz'')"
    "\<not> any_in transactional_keywords (lower ''zzz'')"
    by code_simp+
  from n intent_total_closed [of NoneVal] intent_total_closed [of "IntVal 7"]
    intent_total_closed [of "Str ''zzz''"] intent_total_closed [of "Str ''Buy Shoes''"]
  show ?thesis by (simp add: label_string_def)
qed

subsection \<open>Entity extractor adapter\<close>

text \<open>
  C5. The adapter returns a list for every outcome of the extractor: the one-element list
  \<open>No specific entities found\<close> when the extractor succeeds with no entity, the
  one-element list \<open>Error extracting entities\<close> when it raises, the entities themselves
  otherwise. The two sentinel lists differ from each other and from the empty list, and
  the adapter never returns the empty list.
\<close>

theorem extract_entities_sentinels:
  "(nlp E text = Inr [] \<longrightarrow> extract_entities E text = [Message ''No specific entities found''])
   \<and> (\<forall>e. nlp E text = Inl e \<longrightarrow> extract_entities E text = [Message ''Error extracting entities''])
   \<and> (\<forall>ents. nlp E text = Inr ents \<and> ents \<noteq> [] \<longrightarrow>
         extract_entities E text = map (\<lambda>(t, l). Tuple t l) ents)
   \<and> [Message ''No specific entities found''] \<noteq> [Message ''Error extracting entities'']
   \<and> [Message ''No specific entities found''] \<noteq> ([] :: entity list)
   \<and> [Message ''Error extracting entities''] \<noteq> ([] :: entity list)
   \<and> extract_entities E text \<noteq> []"
  by (auto simp: extract_entities_def Let_def split: sum.splits)

theorem extract_entities_sentinels_witness:
  "nlp demo_env ''shoes'' = Inr [] \<and> nlp demo_env ''crash'' = Inl ModelError
   \<and> extract_entities demo_env ''shoes'' = [Message ''No specific entities found'']
   \<and> extract_entities demo_env ''crash'' = [Message ''Error extracting entities'']
   \<and> extract_entities demo_env ''hotel paris'' = [Tuple ''paris'' ''location'']"
proof -
  have a: "nlp demo_env ''shoes'' = Inr []" by (simp add: demo_env_def demo_nlp_def)
  have b: "nlp demo_env ''crash'' = Inl ModelError" by (simp add: demo_env_def demo_nlp_def)
  have c: "nlp demo_env ''hotel paris'' = Inr [(''paris'', ''location'')]"
    by (simp add: demo_env_def demo_nlp_def)
  from a b c extract_entities_sentinels [of demo_env "''shoes''"]
    extract_entities_sentinels [of demo_env "''crash''"]
    extract_entities_sentinels [of demo_env "''hotel paris''"]
  show ?thesis by simp
qed

subsection \<open>Topic matcher\<close>

lemma argsort_props:
  assumes "argsort_sorts E"
  shows "length (argsort E xs) = length xs" "set (argsort E xs) = {0..<length xs}"
    "distinct (argsort E xs)" "sorted (map (\<lambda>i. xs ! i) (argsort E xs))"
proof -
  from assms show l: "length (argsort E xs) = length xs"
    and s: "set (argsort E xs) = {0..<length xs}"
    and "sorted (map (\<lambda>i. xs ! i) (argsort E xs))"
    by (simp_all add: argsort_sorts_def)
  from l s have "card (set (argsort E xs)) = length (argsort E xs)" by simp
  then show "distinct (argsort E xs)" by (rule card_distinct)
qed

lemma top_indices_nth:
  assumes "argsort_sorts E" and "2 \<le> length xs"
  shows "getitem (top_indices E xs) 0 = Inr (argsort E xs ! (length xs - 1))"
    and "getitem (top_indices E xs) 1 = Inr (argsort E xs ! (length xs - 2))"
proof -
  note ap = argsort_props [OF assms(1)]
  let ?n = "length xs"
  let ?d = "drop (?n - 3) (argsort E xs)"
  have ti: "top_indices E xs = rev ?d" by (simp add: top_indices_def ap)
  have len: "length ?d = min 3 ?n" by (simp add: ap)
  have l2: "2 \<le> length ?d" using assms(2) len by simp
  have "rev ?d ! 0 = ?d ! (length ?d - 1)" using l2 by (simp add: rev_nth)
  also have "\<dots> = argsort E xs ! (?n - 3 + (length ?d - 1))"
    using l2 by (simp add: ap)
  also have "?n - 3 + (length ?d - 1) = ?n - 1" using assms(2) len by (simp add: min_def)
  finally show "getitem (top_indices E xs) 0 = Inr (argsort E xs ! (length xs - 1))"
    using l2 by (simp add: getitem_def ti)
  have "rev ?d ! 1 = ?d ! (length ?d - 2)" using l2 by (simp add: rev_nth)
  also have "\<dots> = argsort E xs ! (?n - 3 + (length ?d - 2))"
    using l2 by (simp add: ap)
  also have "?n - 3 + (length ?d - 2) = ?n - 2" using assms(2) len by (simp add: min_def)
  finally show "getitem (top_indices E xs) 1 = Inr (argsort E xs ! (length xs - 2))"
    using l2 by (simp add: getitem_def ti)
qed

lemma argsort_best:
  assumes "argsort_sorts E" and "2 \<le> length xs" and "k < length xs"
  shows "xs ! k \<le> xs ! (argsort E xs ! (length xs - 1))"
    and "k \<noteq> argsort E xs ! (length xs - 1) \<Longrightarrow> xs ! k \<le> xs ! (argsort E xs ! (length xs - 2))"
proof -
  note ap = argsort_props [OF assms(1)]
  let ?n = "length xs" and ?s = "argsort E xs"
  from assms(3) have "k \<in> set ?s" by (simp add: ap)
  then obtain m where "m < length ?s" "?s ! m = k"
    unfolding in_set_conv_nth by blast
  then have m: "m < ?n" "?s ! m = k" by (simp_all add: ap)
  have srt: "sorted (map (\<lambda>i. xs ! i) ?s)" by (rule ap)
  have mono: "\<And>a b. a \<le> b \<Longrightarrow> b < ?n \<Longrightarrow> xs ! (?s ! a) \<le> xs ! (?s ! b)"
  proof -
    fix a b assume ab: "a \<le> b" "b < ?n"
    then have "map (\<lambda>i. xs ! i) ?s ! a \<le> map (\<lambda>i. xs ! i) ?s ! b"
      using srt by (intro sorted_nth_mono) (simp_all add: ap)
    with ab show "xs ! (?s ! a) \<le> xs ! (?s ! b)" by (simp add: ap)
  qed
  from mono [of m "?n - 1"] m assms(2) show "xs ! k \<le> xs ! (?s ! (?n - 1))" by simp
  assume "k \<noteq> ?s ! (?n - 1)"
  with m have "m \<noteq> ?n - 1" by auto
  with m have "m \<le> ?n - 2" by simp
  from mono [OF this] m assms(2) show "xs ! k \<le> xs ! (?s ! (?n - 2))" by simp
qed


lemma top_two:
  assumes "argsort_sorts E" and "length (load_google_categories E) = length sims"
    and "2 \<le> length sims"
  shows "\<exists>best second. best < length sims \<and> second < length sims \<and> best \<noteq> second
         \<and> (\<forall>k<length sims. sims ! k \<le> sims ! best)
         \<and> (\<forall>k<length sims. k \<noteq> best \<longrightarrow> sims ! k \<le> sims ! second)
         \<and> perform_topic_modeling_from_similarities E sims =
             (if sims ! best > times_1_1 E (sims ! second) then load_google_categories E ! best
              else load_google_categories E ! best @ '' , '' @ load_google_categories E ! second)"
proof -
  note ap = argsort_props [OF assms(1)]
  let ?n = "length sims" and ?s = "argsort E sims"
  let ?b = "?s ! (?n - 1)" and ?c = "?s ! (?n - 2)"
  note n2 = assms(3)
  have "?n - 1 < length ?s" "?n - 2 < length ?s"
    using n2 by (simp_all add: ap)
  then have inb: "?b \<in> set ?s" "?c \<in> set ?s"
    by (simp_all only: nth_mem)
  then have lt: "?b < ?n" "?c < ?n" by (simp_all only: ap atLeastLessThan_iff)
  have ne: "?b \<noteq> ?c"
    using n2 by (simp add: nth_eq_iff_index_eq ap)
  have run: "perform_topic_modeling_from_similarities E sims =
      (if sims ! ?b > times_1_1 E (sims ! ?c) then load_google_categories E ! ?b
       else load_google_categories E ! ?b @ '' , '' @ load_google_categories E ! ?c)"
    unfolding perform_topic_modeling_from_similarities_def Let_def
      top_indices_nth [OF assms(1) n2]
    using lt assms(2) by (simp add: getitem_def)
  show ?thesis
    using lt ne run argsort_best [OF assms(1) n2]
    by (intro exI [of _ ?b] exI [of _ ?c]) simp
qed


lemma top_two_of_three:
  fixes a b c :: real
  assumes "best < length [a, b, c]" "second < length [a, b, c]" "best \<noteq> second"
    and "\<forall>k<length [a, b, c]. [a, b, c] ! k \<le> [a, b, c] ! best"
    and "\<forall>k<length [a, b, c]. k \<noteq> best \<longrightarrow> [a, b, c] ! k \<le> [a, b, c] ! second"
    and "c < b" "b < a"
  shows "best = 0 \<and> second = 1"
proof -
  have three: "i = 0 \<or> i = 1 \<or> i = 2" if "i < length [a, b, c]" for i :: nat
    using that by auto
  from assms(4) [THEN spec, of 0] have "a \<le> [a, b, c] ! best" by simp
  with three [OF assms(1)] assms(6,7) have b0: "best = 0" by auto
  from assms(5) [THEN spec, of 1] b0 have "b \<le> [a, b, c] ! second" by simp
  with three [OF assms(2)] assms(3,6) b0 have "second = 1" by auto
  with b0 show ?thesis by simp
qed

lemma margin_example:
  fixes a b c :: real
  assumes as: "argsort_sorts E" and cats: "load_google_categories E = [A, B, C]"
    and ord: "c < b" "b < a"
  shows "perform_topic_modeling_from_similarities E [a, b, c] =
           (if a > times_1_1 E b then A else A @ '' , '' @ B)"
proof -
  have "length (load_google_categories E) = length [a, b, c]" "2 \<le> length [a, b, c]"
    by (simp_all add: cats)
  from top_two [OF as this]
  obtain best second where bs: "best < length [a, b, c]" "second < length [a, b, c]"
    "best \<noteq> second"
    "\<forall>k<length [a, b, c]. [a, b, c] ! k \<le> [a, b, c] ! best"
    "\<forall>k<length [a, b, c]. k \<noteq> best \<longrightarrow> [a, b, c] ! k \<le> [a, b, c] ! second"
    and run: "perform_topic_modeling_from_similarities E [a, b, c] =
             (if [a, b, c] ! best > times_1_1 E ([a, b, c] ! second)
              then load_google_categories E ! best
              else load_google_categories E ! best @ '' , '' @ load_google_categories E ! second)"
    by (elim exE conjE)
  from top_two_of_three [OF bs ord] have "best = 0" "second = 1" by simp_all
  with run cats show ?thesis by simp
qed

lemma demo_categories: "load_google_categories demo_env = [''Arts'', ''Travel'', ''Finance'']"
  by (simp add: load_google_categories_def demo_env_def strip_def isspace_def)

lemma demo_argsort_sorts: "argsort_sorts demo_env"
  by (simp add: argsort_sorts_def demo_env_def stable_argsort_def)





text \<open>
  Why the rule is stated on the floating-point product. With the binary64 product, take
  the doubles nearest to 0.55 and to 0.5 as best and second similarity: the first exceeds
  1.1 times the second, and yet the matcher returns both names, because the rounded
  product of the second by 1.1 is the first.
\<close>

lemma binary64_half_times_1_1:
  "round_binary64 (1 / 2 * binary64_1_1) = 2476979795053773 / 2 ^ 52"
proof -
  let ?x = "2476979795053773 / 2 ^ 52 :: real"
  have x: "1 / 2 * binary64_1_1 = ?x" by (simp add: binary64_1_1_def)
  have "(2::real) powr (- 1) \<le> \<bar>?x\<bar> \<and> \<bar>?x\<bar> < 2 powr (- 1 + 1)" by simp
  then have e: "\<lfloor>log 2 \<bar>?x\<bar>\<rfloor> = - 1"
    by (subst floor_log_eq_powr_iff) simp_all
  have u: "(2::real) powr (real_of_int (max (- 1) (- 1022)) - 52) = 1 / 2 ^ 53"
  proof -
    have "(2::real) powr (real_of_int (max (- 1) (- 1022)) - 52) = 2 powr (- 53)" by simp
    also have "\<dots> = 1 / 2 ^ 53" by (subst powr_neg_numeral) simp_all
    finally show ?thesis .
  qed
  have q: "?x / (1 / 2 ^ 53) = real_of_int 4953959590107546" by simp
  show ?thesis
    unfolding x round_binary64_def Let_def e u q
    by simp
qed

lemma env_binary64_argsort: "argsort_sorts env_binary64"
  using demo_argsort_sorts by (simp add: argsort_sorts_def env_binary64_def)

lemma rounded_product_example:
  "(2476979795053773 / 2 ^ 52 :: real) > 1 / 2 * 1.1
   \<and> perform_topic_modeling_from_similarities env_binary64 [2476979795053773 / 2 ^ 52, 1 / 2, 1 / 8]
       = ''Arts , Travel''"
proof -
  have c: "load_google_categories env_binary64 = [''Arts'', ''Travel'', ''Finance'']"
    using demo_categories by (simp add: load_google_categories_def env_binary64_def)
  have t: "times_1_1 env_binary64 (1 / 2) = 2476979795053773 / 2 ^ 52"
    using binary64_half_times_1_1 by (simp add: env_binary64_def)
  have "perform_topic_modeling_from_similarities env_binary64 [2476979795053773 / 2 ^ 52, 1 / 2, 1 / 8]
      = (if (2476979795053773 / 2 ^ 52 :: real) > times_1_1 env_binary64 (1 / 2) then ''Arts''
         else ''Arts'' @ '' , '' @ ''Travel'')"
    by (rule margin_example [OF env_binary64_argsort c]) simp_all
  then show ?thesis unfolding t by simp
qed

subsection \<open>Batch loop\<close>

text \<open>The loop equation is unfolded by hand, one iteration at a time.\<close>

declare batch_loop.simps [simp del]

lemma cosine_similarity_rows:
  "cosine_similarity E X Y = Inr S \<Longrightarrow> length S = length X"
  by (auto simp: cosine_similarity_def Let_def split: if_splits)


lemma take_step: "take bs (drop i ks) @ take m (drop (i + bs) ks) = take (bs + m) (drop i ks)"
  by (simp add: take_add add.commute)

text \<open>
  What the loop has appended when it ends, for any environment: the rows of the first
  \<open>m\<close> remaining keywords, where \<open>m\<close> is a whole number of batches, or all of them;
  and all of them when no exception ended the loop.
\<close>

lemma batch_loop_prefix:
  assumes bs: "0 < bs"
  shows "\<exists>m. (bs dvd m \<or> length ks - i \<le> m)
            \<and> (snd (batch_loop E ce bs ks i pd) = None \<longrightarrow> length ks - i \<le> m)
            \<and> extends_by E pd (take m (drop i ks)) (fst (batch_loop E ce bs ks i pd))"
proof (induction "length ks - i" arbitrary: i pd rule: less_induct)
  case less
  let ?batch = "take bs (drop i ks)"
  have stop: "\<exists>m. (bs dvd m \<or> length ks - i \<le> m)
            \<and> (snd (pd, r) = None \<longrightarrow> length ks - i \<le> m)
            \<and> extends_by E pd (take m (drop i ks)) (fst (pd, r))"
    if "r = None \<longrightarrow> length ks \<le> i" for r
    using that by (intro exI [of _ 0]) (simp add: extends_by_def)
  show ?case
  proof (cases "length ks \<le> i")
    case True
    then have "batch_loop E ce bs ks i pd = (pd, None)"
      by (subst batch_loop.simps) simp
    with stop [of None] True show ?thesis by simp
  next
    case False
    show ?thesis
    proof (cases "encode E ?batch bs")
      case (Inl e)
      with False bs have "batch_loop E ce bs ks i pd = (pd, Some e)"
        by (subst batch_loop.simps) simp
      with stop [of "Some e"] show ?thesis by simp
    next
      case X: (Inr X)
      show ?thesis
      proof (cases "cosine_similarity E X ce")
        case (Inl e)
        with X False bs have "batch_loop E ce bs ks i pd = (pd, Some e)"
          by (subst batch_loop.simps) simp
        with stop [of "Some e"] show ?thesis by simp
      next
        case S: (Inr S)
        define pd4 where "pd4 = pd\<lparr>Keywords := Keywords pd @ ?batch,
            Intent := Intent pd @ map intent_of ?batch,
            NER_Entities := NER_Entities pd @ map (entities_of E) ?batch,
            Google_Content_Topics := Google_Content_Topics pd
               @ map (perform_topic_modeling_from_similarities E) S\<rparr>"
        have step: "batch_loop E ce bs ks i pd = batch_loop E ce bs ks (i + bs) pd4"
          using X S False bs
          by (subst batch_loop.simps)
             (simp add: pd4_def Let_def intent_of_def [abs_def] entities_of_def [abs_def]
                comp_def del: sort_by_keyword_feature.simps)
        have "length ks - (i + bs) < length ks - i" using False bs by simp
        then have "\<exists>m. (bs dvd m \<or> length ks - (i + bs) \<le> m)
            \<and> (snd (batch_loop E ce bs ks (i + bs) pd4) = None \<longrightarrow> length ks - (i + bs) \<le> m)
            \<and> extends_by E pd4 (take m (drop (i + bs) ks)) (fst (batch_loop E ce bs ks (i + bs) pd4))"
          by (rule less)
        then obtain m where m:
          "bs dvd m \<or> length ks - (i + bs) \<le> m"
          "snd (batch_loop E ce bs ks (i + bs) pd4) = None \<longrightarrow> length ks - (i + bs) \<le> m"
          "extends_by E pd4 (take m (drop (i + bs) ks)) (fst (batch_loop E ce bs ks (i + bs) pd4))"
          by (elim exE conjE)
        have lenS: "encode_shape E \<Longrightarrow> length S = length ?batch"
          using X cosine_similarity_rows [OF S] by (simp add: encode_shape_def)
        have "extends_by E pd (take (bs + m) (drop i ks)) (fst (batch_loop E ce bs ks i pd))"
          using m(3) lenS unfolding step extends_by_def take_step [symmetric]
          by (simp add: pd4_def)
        moreover have "bs dvd (bs + m) \<or> length ks - i \<le> bs + m" using m(1) by auto
        moreover have "snd (batch_loop E ce bs ks i pd) = None \<longrightarrow> length ks - i \<le> bs + m"
          using m(2) unfolding step by auto
        ultimately show ?thesis by (intro exI [of _ "bs + m"] conjI)
      qed
    qed
  qed
qed

text \<open>
  With a per-text embedder the similarity computation fails for every batch or for none,
  and the loop has a closed form.
\<close>

lemma cosine_per_text:
  assumes "\<forall>t. length (emb t) = d" and "batch \<noteq> []"
  shows "cosine_similarity E (map emb batch) ce =
           (if ce \<noteq> [] \<and> 0 < d \<and> (\<forall>y\<in>set ce. length y = d)
            then Inr (map (\<lambda>kw. map (cos_sim E (emb kw)) ce) batch)
            else Inl ValueError)"
  using assms by (auto simp: cosine_similarity_def Let_def list_all_iff hd_map)

lemma rows_rows: "rows E emb ce (rows E emb ce pd xs) ys = rows E emb ce pd (xs @ ys)"
  by (simp add: rows_def)

lemma batch_loop_per_text:
  assumes bs: "0 < bs" and pt: "per_text_embedder E emb d"
  shows "batch_loop E ce bs ks i pd =
           (if length ks \<le> i then (pd, None)
            else if ce \<noteq> [] \<and> 0 < d \<and> (\<forall>y\<in>set ce. length y = d)
                 then (rows E emb ce pd (drop i ks), None)
                 else (pd, Some ValueError))"
proof (induction "length ks - i" arbitrary: i pd rule: less_induct)
  case less
  let ?batch = "take bs (drop i ks)"
  from pt have enc: "\<And>ts n. encode E ts n = Inr (map emb ts)" and dim: "\<forall>t. length (emb t) = d"
    by (simp_all add: per_text_embedder_def)
  show ?case
  proof (cases "length ks \<le> i")
    case True
    then show ?thesis by (subst batch_loop.simps) simp
  next
    case False
    then have ne: "?batch \<noteq> []" using bs by simp
    note cs = cosine_per_text [OF dim ne, of E ce]
    show ?thesis
    proof (cases "ce \<noteq> [] \<and> 0 < d \<and> (\<forall>y\<in>set ce. length y = d)")
      case bad: False
      from bad have "cosine_similarity E (map emb ?batch) ce = Inl ValueError"
        by (simp only: cs if_False)
      with bad show ?thesis using False bs
        by (subst batch_loop.simps) (simp add: enc del: sort_by_keyword_feature.simps)
    next
      case ok: True
      have lt: "length ks - (i + bs) < length ks - i" using False bs by simp
      from ok have "cosine_similarity E (map emb ?batch) ce
            = Inr (map (\<lambda>kw. map (cos_sim E (emb kw)) ce) ?batch)"
        by (simp add: cs)
      then have step: "batch_loop E ce bs ks i pd
                  = batch_loop E ce bs ks (i + bs) (rows E emb ce pd ?batch)"
        using False bs
        by (subst batch_loop.simps)
           (simp add: enc Let_def rows_def intent_of_def [abs_def]
              entities_of_def [abs_def] topic_of_def [abs_def] comp_def
              del: sort_by_keyword_feature.simps)
      have app: "?batch @ drop (i + bs) ks = drop i ks"
        using append_take_drop_id [of bs "drop i ks"] by (simp add: add.commute)
      show ?thesis
      proof (cases "length ks \<le> i + bs")
        case True
        then have "?batch = drop i ks" by simp
        have "batch_loop E ce bs ks (i + bs) (rows E emb ce pd ?batch)
                = (rows E emb ce pd ?batch, None)"
          using True by (simp add: less [OF lt])
        with \<open>?batch = drop i ks\<close> False ok show ?thesis
          by (simp add: step)
      next
        case f2: False
        have "batch_loop E ce bs ks (i + bs) (rows E emb ce pd ?batch)
                = (rows E emb ce (rows E emb ce pd ?batch) (drop (i + bs) ks), None)"
          using f2 ok by (simp add: less [OF lt])
        also have "\<dots> = (rows E emb ce pd (drop i ks), None)"
          by (simp only: rows_rows app)
        finally show ?thesis using False ok by (simp add: step)
      qed
    qed
  qed
qed


text \<open>
  The extractor has no part in the other three columns, nor in the exception that ends
  the loop.
\<close>

lemma topic_nlp_update [simp]:
  "perform_topic_modeling_from_similarities (E\<lparr>nlp := f\<rparr>) = perform_topic_modeling_from_similarities E"
  by (rule ext)
     (simp add: perform_topic_modeling_from_similarities_def load_google_categories_def
        top_indices_def Let_def split: sum.splits)

lemma cosine_nlp_update [simp]:
  "cosine_similarity (E\<lparr>nlp := f\<rparr>) = cosine_similarity E"
  by (intro ext) (simp add: cosine_similarity_def Let_def)

lemma embeddings_nlp_update [simp]:
  "compute_category_embeddings (E\<lparr>nlp := f\<rparr>) = compute_category_embeddings E"
  by (simp add: compute_category_embeddings_def load_google_categories_def Let_def
      split: option.splits)

lemma without_entities_eq:
  "without_entities pd = without_entities pd' \<longleftrightarrow>
     Keywords pd = Keywords pd' \<and> Intent pd = Intent pd'
     \<and> Google_Content_Topics pd = Google_Content_Topics pd'"
  by (cases pd, cases pd') (simp add: without_entities_def)

lemma batch_loop_nlp_update:
  assumes "without_entities pd = without_entities pd'"
  shows "snd (batch_loop (E\<lparr>nlp := f\<rparr>) ce bs ks i pd) = snd (batch_loop E ce bs ks i pd')
       \<and> without_entities (fst (batch_loop (E\<lparr>nlp := f\<rparr>) ce bs ks i pd))
           = without_entities (fst (batch_loop E ce bs ks i pd'))"
  using assms
proof (induction "length ks - i" arbitrary: i pd pd' rule: less_induct)
  case less
  let ?batch = "take bs (drop i ks)"
  let ?F = "E\<lparr>nlp := f\<rparr>"
  show ?case
  proof (cases "bs = 0 \<or> length ks \<le> i")
    case True
    then have "batch_loop ?F ce bs ks i pd = (pd, None)" "batch_loop E ce bs ks i pd' = (pd', None)"
      by (subst batch_loop.simps, simp)+
    with less.prems show ?thesis by simp
  next
    case False
    show ?thesis
    proof (cases "encode E ?batch bs")
      case (Inl e)
      with False have "batch_loop ?F ce bs ks i pd = (pd, Some e)" "batch_loop E ce bs ks i pd' = (pd', Some e)"
        by (subst batch_loop.simps, simp)+
      with less.prems show ?thesis by simp
    next
      case X: (Inr X)
      show ?thesis
      proof (cases "cosine_similarity E X ce")
        case (Inl e)
        with X False have "batch_loop ?F ce bs ks i pd = (pd, Some e)" "batch_loop E ce bs ks i pd' = (pd', Some e)"
          by (subst batch_loop.simps, simp)+
        with less.prems show ?thesis by simp
      next
        case S: (Inr S)
        define q where "q = pd\<lparr>Keywords := Keywords pd @ ?batch,
            Intent := Intent pd @ map intent_of ?batch,
            NER_Entities := NER_Entities pd @ map (entities_of ?F) ?batch,
            Google_Content_Topics := Google_Content_Topics pd
               @ map (perform_topic_modeling_from_similarities E) S\<rparr>"
        define q' where "q' = pd'\<lparr>Keywords := Keywords pd' @ ?batch,
            Intent := Intent pd' @ map intent_of ?batch,
            NER_Entities := NER_Entities pd' @ map (entities_of E) ?batch,
            Google_Content_Topics := Google_Content_Topics pd'
               @ map (perform_topic_modeling_from_similarities E) S\<rparr>"
        have step: "batch_loop ?F ce bs ks i pd = batch_loop ?F ce bs ks (i + bs) q"
          using X S False
          by (subst batch_loop.simps)
             (simp add: q_def Let_def intent_of_def [abs_def] entities_of_def [abs_def]
                comp_def del: sort_by_keyword_feature.simps)
        have step': "batch_loop E ce bs ks i pd' = batch_loop E ce bs ks (i + bs) q'"
          using X S False
          by (subst batch_loop.simps)
             (simp add: q'_def Let_def intent_of_def [abs_def] entities_of_def [abs_def]
                comp_def del: sort_by_keyword_feature.simps)
        have eq: "without_entities q = without_entities q'"
          using less.prems by (simp add: without_entities_eq q_def q'_def)
        have "length ks - (i + bs) < length ks - i" using False by auto
        from less.hyps [OF this eq] show ?thesis by (simp only: step step')
      qed
    qed
  qed
qed

subsection \<open>Batch orchestrator\<close>

lemma run_prefix:
  "\<exists>m. (0 < b \<longrightarrow> b dvd int m \<or> length ks \<le> m)
      \<and> (snd (batch_process_keywords_logged E ks b) = None \<and> 0 < b \<longrightarrow> length ks \<le> m)
      \<and> extends_by E empty_data (take m ks) (fst (batch_process_keywords_logged E ks b))"
proof (cases "load_sentence_model E = None \<and> 0 < b")
  case True
  then have nb: "0 < nat b" by simp
  from batch_loop_prefix [OF nb, of ks 0 E "compute_category_embeddings E" empty_data]
  obtain m where m: "nat b dvd m \<or> length ks - 0 \<le> m"
    "snd (batch_loop E (compute_category_embeddings E) (nat b) ks 0 empty_data) = None
       \<longrightarrow> length ks - 0 \<le> m"
    "extends_by E empty_data (take m (drop 0 ks))
       (fst (batch_loop E (compute_category_embeddings E) (nat b) ks 0 empty_data))"
    by (elim exE conjE)
  have run: "batch_process_keywords_logged E ks b
      = batch_loop E (compute_category_embeddings E) (nat b) ks 0 empty_data"
    using True by (simp add: batch_process_keywords_logged_def Let_def)
  have "int (nat b) dvd int m \<or> length ks \<le> m" using m(1) by (simp only: int_dvd_int_iff) simp
  then have "b dvd int m \<or> length ks \<le> m" using True by simp
  with m(2,3) show ?thesis unfolding run by (intro exI [of _ m]) simp
next
  case False
  then have "fst (batch_process_keywords_logged E ks b) = empty_data"
    by (auto simp: batch_process_keywords_logged_def Let_def split: option.splits)
  moreover have "snd (batch_process_keywords_logged E ks b) = None \<and> 0 < b \<longrightarrow> False"
    using False by (auto simp: batch_process_keywords_logged_def Let_def split: option.splits)
  ultimately show ?thesis using False
    by (intro exI [of _ 0]) (auto simp: extends_by_def)
qed

lemma run_complete:
  assumes "snd (batch_process_keywords_logged E ks b) = None" and "0 < b"
  shows "extends_by E empty_data ks (batch_process_keywords E ks b)"
proof -
  from run_prefix [of b ks E] assms obtain m where "length ks \<le> m"
    "extends_by E empty_data (take m ks) (fst (batch_process_keywords_logged E ks b))"
    by blast
  then show ?thesis by (simp add: batch_process_keywords_def)
qed

lemma run_per_text:
  assumes "0 < b" and "per_text_embedder E emb d"
  shows "batch_process_keywords_logged E ks b =
     (case load_sentence_model E of
        Some e \<Rightarrow> (empty_data, Some e)
      | None \<Rightarrow>
          if ks = [] then (empty_data, None)
          else if compute_category_embeddings E \<noteq> [] \<and> 0 < d
                  \<and> (\<forall>y\<in>set (compute_category_embeddings E). length y = d)
               then (rows E emb (compute_category_embeddings E) empty_data ks, None)
               else (empty_data, Some ValueError))"
proof -
  from assms(1) have nb: "0 < nat b" by simp
  show ?thesis
    using assms(1)
    by (simp add: batch_process_keywords_logged_def Let_def
        batch_loop_per_text [OF nb assms(2)] split: option.splits)
qed

lemma category_embeddings_per_text:
  assumes "load_sentence_model E = None" and "per_text_embedder E emb d"
  shows "compute_category_embeddings E = map emb (load_google_categories E)"
  using assms by (simp add: compute_category_embeddings_def per_text_embedder_def Let_def)

lemma run_nlp_update:
  "snd (batch_process_keywords_logged (E\<lparr>nlp := f\<rparr>) ks b) = snd (batch_process_keywords_logged E ks b)
   \<and> without_entities (batch_process_keywords (E\<lparr>nlp := f\<rparr>) ks b)
       = without_entities (batch_process_keywords E ks b)"
  using batch_loop_nlp_update [where pd = empty_data and pd' = empty_data and E = E and f = f
      and ce = "compute_category_embeddings E" and bs = "nat b" and ks = ks and i = 0]
  by (simp add: batch_process_keywords_def batch_process_keywords_logged_def Let_def
      split: option.splits)



text \<open>The reference environments.\<close>

lemma demo_per_text: "per_text_embedder demo_env demo_embed 2"
  by (simp add: per_text_embedder_def demo_env_def demo_embed_def)

lemma demo_encode_shape: "encode_shape demo_env"
  by (simp add: encode_shape_def demo_env_def)


lemma env_encode_fails_shape: "encode_shape env_encode_fails"
  by (simp add: encode_shape_def env_encode_fails_def demo_env_def)

lemma demo_run: "batch_process_keywords_logged demo_env ks 8 =
   (if ks = [] then (empty_data, None)
    else (rows demo_env demo_embed (map demo_embed [''Arts'', ''Travel'', ''Finance'']) empty_data ks, None))"
proof -
  have l: "load_sentence_model demo_env = None" by (simp add: demo_env_def)
  have ce: "compute_category_embeddings demo_env = map demo_embed [''Arts'', ''Travel'', ''Finance'']"
    by (simp only: category_embeddings_per_text [OF l demo_per_text] demo_categories)
  show ?thesis
    by (simp add: run_per_text [of 8 demo_env demo_embed 2, OF _ demo_per_text] l ce demo_embed_def)
qed

text \<open>
  C10. When the embedder returns one row per text, the four columns of the result have the
  same length, whatever happens during the run: the result holds the rows of the first
  \<open>m\<close> keywords, where \<open>m\<close> is a whole number of batches or the run reached the last
  keyword; a batch in which an exception is raised contributes to no column.
\<close>

theorem columns_aligned:
  "encode_shape E \<longrightarrow>
     length (Intent (batch_process_keywords E ks b)) = length (Keywords (batch_process_keywords E ks b))
     \<and> length (NER_Entities (batch_process_keywords E ks b)) = length (Keywords (batch_process_keywords E ks b))
     \<and> length (Google_Content_Topics (batch_process_keywords E ks b))
         = length (Keywords (batch_process_keywords E ks b))
     \<and> (\<exists>m. (0 < b \<longrightarrow> b dvd int m \<or> length ks \<le> m)
            \<and> Keywords (batch_process_keywords E ks b) = take m ks
            \<and> Intent (batch_process_keywords E ks b) = map intent_of (take m ks)
            \<and> NER_Entities (batch_process_keywords E ks b) = map (entities_of E) (take m ks))"
proof
  assume es: "encode_shape E"
  from run_prefix [of b ks E] obtain m where m: "0 < b \<longrightarrow> b dvd int m \<or> length ks \<le> m"
    "extends_by E empty_data (take m ks) (batch_process_keywords E ks b)"
    unfolding batch_process_keywords_def by (elim exE conjE)
  from m(2) es have cols: "Keywords (batch_process_keywords E ks b) = take m ks"
    "Intent (batch_process_keywords E ks b) = map intent_of (take m ks)"
    "NER_Entities (batch_process_keywords E ks b) = map (entities_of E) (take m ks)"
    "length (Google_Content_Topics (batch_process_keywords E ks b)) = length (take m ks)"
    by (simp_all add: extends_by_def empty_data_def)
  show "length (Intent (batch_process_keywords E ks b)) = length (Keywords (batch_process_keywords E ks b))
     \<and> length (NER_Entities (batch_process_keywords E ks b)) = length (Keywords (batch_process_keywords E ks b))
     \<and> length (Google_Content_Topics (batch_process_keywords E ks b))
         = length (Keywords (batch_process_keywords E ks b))
     \<and> (\<exists>m. (0 < b \<longrightarrow> b dvd int m \<or> length ks \<le> m)
            \<and> Keywords (batch_process_keywords E ks b) = take m ks
            \<and> Intent (batch_process_keywords E ks b) = map intent_of (take m ks)
            \<and> NER_Entities (batch_process_keywords E ks b) = map (entities_of E) (take m ks))"
    using m(1) cols by (intro conjI exI [of _ m]) simp_all
qed

theorem columns_aligned_witness:
  "encode_shape env_encode_fails
   \<and> batch_process_keywords_logged env_encode_fails [''buy shoes'', ''near me'', ''boom''] 2
       = (\<lparr>Keywords = [''buy shoes'', ''near me''],
           Intent = [''transactional'', ''local''],
           NER_Entities = [''No specific entities found'', ''No specific entities found''],
           Google_Content_Topics = [''Travel'', ''Finance , Travel'']\<rparr>, Some ModelError)
   \<and> length (Intent (batch_process_keywords env_encode_fails [''buy shoes'', ''near me'', ''boom''] 2))
       = length (Keywords (batch_process_keywords env_encode_fails [''buy shoes'', ''near me'', ''boom''] 2))
   \<and> length (NER_Entities (batch_process_keywords env_encode_fails [''buy shoes'', ''near me'', ''boom''] 2))
       = length (Keywords (batch_process_keywords env_encode_fails [''buy shoes'', ''near me'', ''boom''] 2))
   \<and> length (Google_Content_Topics (batch_process_keywords env_encode_fails [''buy shoes'', ''near me'', ''boom''] 2))
       = length (Keywords (batch_process_keywords env_encode_fails [''buy shoes'', ''near me'', ''boom''] 2))"
proof -
  have v: "batch_process_keywords_logged env_encode_fails [''buy shoes'', ''near me'', ''boom''] 2
       = (\<lparr>Keywords = [''buy shoes'', ''near me''],
           Intent = [''transactional'', ''local''],
           NER_Entities = [''No specific entities found'', ''No specific entities found''],
           Google_Content_Topics = [''Travel'', ''Finance , Travel'']\<rparr>, Some ModelError)"
    by code_simp
  from columns_aligned [of env_encode_fails "[''buy shoes'', ''near me'', ''boom'']" 2,
      THEN mp, OF env_encode_fails_shape]
  have "length (Intent (batch_process_keywords env_encode_fails [''buy shoes'', ''near me'', ''boom''] 2))
       = length (Keywords (batch_process_keywords env_encode_fails [''buy shoes'', ''near me'', ''boom''] 2))"
   "length (NER_Entities (batch_process_keywords env_encode_fails [''buy shoes'', ''near me'', ''boom''] 2))
       = length (Keywords (batch_process_keywords env_encode_fails [''buy shoes'', ''near me'', ''boom''] 2))"
   "length (Google_Content_Topics (batch_process_keywords env_encode_fails [''buy shoes'', ''near me'', ''boom''] 2))
       = length (Keywords (batch_process_keywords env_encode_fails [''buy shoes'', ''near me'', ''boom''] 2))"
    by simp_all
  with env_encode_fails_shape v show ?thesis by (intro conjI)
qed

text \<open>
  C6. With an embedder that answers every batch with the rows of a per-text function of one
  fixed dimension, the result for a batch size \<open>b \<ge> 1\<close> is the result for the default
  batch size 8, and so is the logged exception.
\<close>

theorem batch_size_irrelevant:
  "0 < b \<and> per_text_embedder E emb d \<longrightarrow>
     batch_process_keywords E ks b = batch_process_keywords E ks 8
     \<and> batch_process_keywords_logged E ks b = batch_process_keywords_logged E ks 8"
proof
  assume h: "0 < b \<and> per_text_embedder E emb d"
  then have "batch_process_keywords_logged E ks b = batch_process_keywords_logged E ks 8"
    by (simp only: run_per_text [of b E emb d] run_per_text [of 8 E emb d, simplified])
  then show "batch_process_keywords E ks b = batch_process_keywords E ks 8
     \<and> batch_process_keywords_logged E ks b = batch_process_keywords_logged E ks 8"
    by (simp add: batch_process_keywords_def)
qed

theorem batch_size_irrelevant_witness:
  "(0::int) < 3 \<and> per_text_embedder demo_env demo_embed 2
   \<and> batch_process_keywords demo_env [''buy shoes'', ''crash'', ''hotel paris'', ''near me''] 3
       = batch_process_keywords demo_env [''buy shoes'', ''crash'', ''hotel paris'', ''near me''] 8"
  using batch_size_irrelevant [of 3 demo_env demo_embed 2 "[''buy shoes'', ''crash'', ''hotel paris'', ''near me'']"]
    demo_per_text by simp

text \<open>
  C9. The extractor has no influence on the keyword, intent and topic columns or on whether
  the run is aborted: they are the same for any other extractor. Where embedder and
  taxonomy work and the extractor raises for the keyword at index \<open>j\<close>, the run is not
  aborted, every keyword has its record with its intent and its topic, the entity field
  of keyword \<open>j\<close> is \<open>Error extracting entities\<close>, and every entity field is the one
  of its own keyword.
\<close>

theorem extraction_failure_contained:
  "(snd (batch_process_keywords_logged (E\<lparr>nlp := f\<rparr>) ks b) = snd (batch_process_keywords_logged E ks b)
    \<and> Keywords (batch_process_keywords (E\<lparr>nlp := f\<rparr>) ks b) = Keywords (batch_process_keywords E ks b)
    \<and> Intent (batch_process_keywords (E\<lparr>nlp := f\<rparr>) ks b) = Intent (batch_process_keywords E ks b)
    \<and> Google_Content_Topics (batch_process_keywords (E\<lparr>nlp := f\<rparr>) ks b)
        = Google_Content_Topics (batch_process_keywords E ks b))
   \<and> (load_sentence_model E = None \<and> 0 < b \<and> per_text_embedder E emb d \<and> 0 < d
        \<and> load_google_categories E \<noteq> [] \<and> j < length ks \<and> nlp E (ks ! j) = Inl e \<longrightarrow>
      snd (batch_process_keywords_logged E ks b) = None
      \<and> Keywords (batch_process_keywords E ks b) = ks
      \<and> Intent (batch_process_keywords E ks b) = map intent_of ks
      \<and> Google_Content_Topics (batch_process_keywords E ks b)
          = map (topic_of E emb (map emb (load_google_categories E))) ks
      \<and> length (NER_Entities (batch_process_keywords E ks b)) = length ks
      \<and> NER_Entities (batch_process_keywords E ks b) ! j = ''Error extracting entities''
      \<and> (\<forall>i<length ks. NER_Entities (batch_process_keywords E ks b) ! i
                          = processed_entity (extract_entities E (ks ! i))))"
proof (intro conjI impI)
  from run_nlp_update [where E = E and f = f and ks = ks and b = b]
  show "snd (batch_process_keywords_logged (E\<lparr>nlp := f\<rparr>) ks b) = snd (batch_process_keywords_logged E ks b)"
    "Keywords (batch_process_keywords (E\<lparr>nlp := f\<rparr>) ks b) = Keywords (batch_process_keywords E ks b)"
    "Intent (batch_process_keywords (E\<lparr>nlp := f\<rparr>) ks b) = Intent (batch_process_keywords E ks b)"
    "Google_Content_Topics (batch_process_keywords (E\<lparr>nlp := f\<rparr>) ks b)
        = Google_Content_Topics (batch_process_keywords E ks b)"
    by (simp_all add: without_entities_eq)
next
  assume h: "load_sentence_model E = None \<and> 0 < b \<and> per_text_embedder E emb d \<and> 0 < d
     \<and> load_google_categories E \<noteq> [] \<and> j < length ks \<and> nlp E (ks ! j) = Inl e"
  let ?ce = "map emb (load_google_categories E)"
  from h have ce: "compute_category_embeddings E = ?ce"
    by (intro category_embeddings_per_text [of E emb d]) simp_all
  from h have ok: "?ce \<noteq> [] \<and> 0 < d \<and> (\<forall>y\<in>set ?ce. length y = d)"
    by (auto simp: per_text_embedder_def)
  from h have ks: "ks \<noteq> []" by auto
  from h have "batch_process_keywords_logged E ks b = (rows E emb ?ce empty_data ks, None)"
    using ok ks by (simp add: run_per_text [of b E emb d] ce)
  then have run: "snd (batch_process_keywords_logged E ks b) = None"
    "batch_process_keywords E ks b = rows E emb ?ce empty_data ks"
    by (simp_all add: batch_process_keywords_def)
  have j: "entities_of E (ks ! j) = ''Error extracting entities''"
    using h by (simp add: entities_of_def extract_entities_def processed_entity_def entity_string_def)
  show "snd (batch_process_keywords_logged E ks b) = None"
    "Keywords (batch_process_keywords E ks b) = ks"
    "Intent (batch_process_keywords E ks b) = map intent_of ks"
    "Google_Content_Topics (batch_process_keywords E ks b)
          = map (topic_of E emb (map emb (load_google_categories E))) ks"
    "length (NER_Entities (batch_process_keywords E ks b)) = length ks"
    "NER_Entities (batch_process_keywords E ks b) ! j = ''Error extracting entities''"
    "\<forall>i<length ks. NER_Entities (batch_process_keywords E ks b) ! i
                          = processed_entity (extract_entities E (ks ! i))"
    using h j unfolding run by (simp_all add: rows_def empty_data_def entities_of_def)
qed

theorem extraction_failure_contained_witness:
  "load_sentence_model demo_env = None \<and> (0::int) < 8 \<and> per_text_embedder demo_env demo_embed 2
   \<and> (0::nat) < 2 \<and> load_google_categories demo_env \<noteq> []
   \<and> (1::nat) < length [''hotel paris'', ''crash'', ''buy shoes'']
   \<and> nlp demo_env ([''hotel paris'', ''crash'', ''buy shoes''] ! 1) = Inl ModelError
   \<and> snd (batch_process_keywords_logged demo_env [''hotel paris'', ''crash'', ''buy shoes''] 8) = None
   \<and> Keywords (batch_process_keywords demo_env [''hotel paris'', ''crash'', ''buy shoes''] 8)
        = [''hotel paris'', ''crash'', ''buy shoes'']
   \<and> Intent (batch_process_keywords demo_env [''hotel paris'', ''crash'', ''buy shoes''] 8)
        = map intent_of [''hotel paris'', ''crash'', ''buy shoes'']
   \<and> NER_Entities (batch_process_keywords demo_env [''hotel paris'', ''crash'', ''buy shoes''] 8) ! 1
        = ''Error extracting entities''
   \<and> batch_process_keywords demo_env [''hotel paris'', ''crash'', ''buy shoes''] 8
        = \<lparr>Keywords = [''hotel paris'', ''crash'', ''buy shoes''],
           Intent = [''other'', ''other'', ''transactional''],
           NER_Entities = [''paris (location)'', ''Error extracting entities'',
                           ''No specific entities found''],
           Google_Content_Topics = [''Finance , Travel'', ''Travel'', ''Travel'']\<rparr>"
proof -
  have h: "load_sentence_model demo_env = None \<and> (0::int) < 8 \<and> per_text_embedder demo_env demo_embed 2
   \<and> (0::nat) < 2 \<and> load_google_categories demo_env \<noteq> []
   \<and> (1::nat) < length [''hotel paris'', ''crash'', ''buy shoes'']
   \<and> nlp demo_env ([''hotel paris'', ''crash'', ''buy shoes''] ! 1) = Inl ModelError"
    by (simp add: demo_per_text demo_categories) (simp add: demo_env_def demo_nlp_def)
  have v: "batch_process_keywords demo_env [''hotel paris'', ''crash'', ''buy shoes''] 8
        = \<lparr>Keywords = [''hotel paris'', ''crash'', ''buy shoes''],
           Intent = [''other'', ''other'', ''transactional''],
           NER_Entities = [''paris (location)'', ''Error extracting entities'',
                           ''No specific entities found''],
           Google_Content_Topics = [''Finance , Travel'', ''Travel'', ''Travel'']\<rparr>"
    by code_simp
  from extraction_failure_contained [where E = demo_env and f = demo_nlp
      and ks = "[''hotel paris'', ''crash'', ''buy shoes'']" and b = 8 and emb = demo_embed
      and d = 2 and j = 1 and e = ModelError, THEN conjunct2, THEN mp, OF h] h v
  show ?thesis by (simp only: simp_thms)
qed

text \<open>
  C7, at the failing input: with an unreadable taxonomy file and the one keyword
  \<open>buy shoes\<close>, the similarity computation raises on the empty array of category
  embeddings, outside the topic matcher, and the run returns four empty columns; the
  topic matcher, had it been called, would have returned its sentinel, and the intent
  and the entities of the keyword are computable.
\<close>

theorem empty_taxonomy_aborts_run:
  "categories_file env_no_taxonomy = None
   \<and> load_sentence_model env_no_taxonomy = None
   \<and> batch_process_keywords_logged env_no_taxonomy [''buy shoes''] 8 = (empty_data, Some ValueError)
   \<and> perform_topic_modeling_from_similarities env_no_taxonomy [] = ''Error in topic modeling''
   \<and> sort_by_keyword_feature (Str ''buy shoes'') = ''transactional''
   \<and> extract_entities env_no_taxonomy ''buy shoes'' = [Message ''No specific entities found'']"
  by code_simp

subsection \<open>Pipeline entry point\<close>

text \<open>
  C1 as stated fails: an input of 100 empty lines followed by the line \<open>buy shoes\<close> has
  one non-empty line, and the run, which completes without exception, returns no record,
  because only the first 100 raw lines are read.
\<close>

theorem first_100_nonempty_counterexample:
  "nonempty_lines (replicate 100 (CHR 0x0A) @ ''buy shoes'') = [''buy shoes'']
   \<and> handle_keyword_processing demo_env (Some 1) (replicate 100 (CHR 0x0A) @ ''buy shoes'')
       = (True, False, False, [], ''success'', Some empty_data, [], True,
          ''Keyword processing complete!'')
   \<and> snd (batch_process_keywords_logged demo_env
            (normalize_keywords (replicate 100 (CHR 0x0A) @ ''buy shoes'')) 8) = None
   \<and> Keywords (batch_process_keywords demo_env (normalize_keywords ''buy shoes'') 8)
       = [''buy shoes'']"
  by code_simp

text \<open>
  C1, amended. When the run completes without exception (and the embedder returns one row
  per text), the result has exactly one record for each non-empty trimmed line among the
  first 100 lines of the input, blank lines included in the count of 100, in input
  order; so at most 100 records.
\<close>

theorem keywords_from_first_100_lines:
  "input \<noteq> [] \<and> encode_shape E
     \<and> snd (batch_process_keywords_logged E (normalize_keywords input) 8) = None \<longrightarrow>
   (\<exists>pd. handle_keyword_processing E (Some n) input
            = (True, False, False, [], ''success'', Some pd, [], True, ''Keyword processing complete!'')
        \<and> Keywords pd = map strip (filter (\<lambda>line. strip line \<noteq> []) (take 100 (split_nl input)))
        \<and> Intent pd = map intent_of (Keywords pd)
        \<and> NER_Entities pd = map (entities_of E) (Keywords pd)
        \<and> length (Google_Content_Topics pd) = length (Keywords pd)
        \<and> length (Keywords pd) \<le> 100)"
proof
  assume h: "input \<noteq> [] \<and> encode_shape E
     \<and> snd (batch_process_keywords_logged E (normalize_keywords input) 8) = None"
  let ?pd = "batch_process_keywords E (normalize_keywords input) 8"
  from h have "extends_by E empty_data (normalize_keywords input) ?pd"
    by (intro run_complete) simp_all
  with h have cols: "Keywords ?pd = normalize_keywords input"
    "Intent ?pd = map intent_of (normalize_keywords input)"
    "NER_Entities ?pd = map (entities_of E) (normalize_keywords input)"
    "length (Google_Content_Topics ?pd) = length (normalize_keywords input)"
    by (simp_all add: extends_by_def empty_data_def)
  have "length (filter (\<lambda>line. strip line \<noteq> []) (take 100 (split_nl input)))
          \<le> length (take 100 (split_nl input))"
    by (rule length_filter_le)
  then have le: "length (normalize_keywords input) \<le> 100"
    by (simp add: normalize_keywords_def)
  have "handle_keyword_processing E (Some n) input
            = (True, False, False, [], ''success'', Some ?pd, [], True, ''Keyword processing complete!'')"
    using h by (simp add: handle_keyword_processing_def Let_def)
  with cols le show "\<exists>pd. handle_keyword_processing E (Some n) input
            = (True, False, False, [], ''success'', Some pd, [], True, ''Keyword processing complete!'')
        \<and> Keywords pd = map strip (filter (\<lambda>line. strip line \<noteq> []) (take 100 (split_nl input)))
        \<and> Intent pd = map intent_of (Keywords pd)
        \<and> NER_Entities pd = map (entities_of E) (Keywords pd)
        \<and> length (Google_Content_Topics pd) = length (Keywords pd)
        \<and> length (Keywords pd) \<le> 100"
    by (intro exI [of _ ?pd]) (simp add: normalize_keywords_def)
qed

theorem keywords_from_first_100_lines_witness:
  "''buy shoes'' @ [CHR 0x0A, CHR 0x0A] @ ''  Hotel Paris '' @ [CHR 0x0A] \<noteq> []
   \<and> encode_shape demo_env
   \<and> snd (batch_process_keywords_logged demo_env
        (normalize_keywords (''buy shoes'' @ [CHR 0x0A, CHR 0x0A] @ ''  Hotel Paris '' @ [CHR 0x0A])) 8) = None
   \<and> (\<exists>pd. handle_keyword_processing demo_env (Some 1)
               (''buy shoes'' @ [CHR 0x0A, CHR 0x0A] @ ''  Hotel Paris '' @ [CHR 0x0A])
            = (True, False, False, [], ''success'', Some pd, [], True, ''Keyword processing complete!'')
        \<and> Keywords pd = [''buy shoes'', ''Hotel Paris'']
        \<and> length (Google_Content_Topics pd) = length (Keywords pd))"
proof -
  let ?input = "''buy shoes'' @ [CHR 0x0A, CHR 0x0A] @ ''  Hotel Paris '' @ [CHR 0x0A]"
  have n: "map strip (filter (\<lambda>line. strip line \<noteq> []) (take 100 (split_nl ?input)))
             = [''buy shoes'', ''Hotel Paris'']"
    by code_simp
  have h: "?input \<noteq> [] \<and> encode_shape demo_env
     \<and> snd (batch_process_keywords_logged demo_env (normalize_keywords ?input) 8) = None"
    by (simp add: demo_encode_shape demo_run)
  from keywords_from_first_100_lines [of ?input demo_env 1, THEN mp, OF h]
  have "\<exists>pd. handle_keyword_processing demo_env (Some 1) ?input
            = (True, False, False, [], ''success'', Some pd, [], True, ''Keyword processing complete!'')
        \<and> Keywords pd = [''buy shoes'', ''Hotel Paris'']
        \<and> length (Google_Content_Topics pd) = length (Keywords pd)"
    unfolding n by blast
  with h show ?thesis by (intro conjI) (simp_all only: simp_thms)
qed



end
